theory Spec2Isabelle
  imports Main "HOL-Library.Sublist"
begin

section \<open>The Go library functions the package calls\<close>

text \<open>
  Go strings are byte sequences; they are modelled as \<open>string\<close> (a list of 8-bit
  characters). The package formats every statement with \<^verbatim>\<open>fmt.Sprintf\<close>, and every
  template it uses contains only the verb \<^verbatim>\<open>%v\<close>, applied to operands whose underlying
  type is \<^verbatim>\<open>string\<close>; for such an operand \<^verbatim>\<open>%v\<close> prints the bytes of the string as
  they are. \<open>Sprintf\<close> scans the template from the left: each \<^verbatim>\<open>%v\<close> is replaced by the
  next operand (which is not scanned again), every other byte is copied. A verb with no
  operand left prints Go's \<^verbatim>\<open>%!v(MISSING)\<close>. Verbs other than \<^verbatim>\<open>%v\<close> and operands beyond
  the last verb do not occur in the package and are not modelled (such bytes are copied,
  such operands dropped).
\<close>

fun Sprintf :: \<open>string \<Rightarrow> string list \<Rightarrow> string\<close> where
  \<open>Sprintf [] args = []\<close>
| \<open>Sprintf [c] args = [c]\<close>
| \<open>Sprintf (c # d # t) args =
     (if c = CHR ''%'' \<and> d = CHR ''v''
      then (case args of
              [] \<Rightarrow> ''%!v(MISSING)'' @ Sprintf t []
            | a # rest \<Rightarrow> a @ Sprintf t rest)
      else c # Sprintf (d # t) args)\<close>

text \<open>
  \<^verbatim>\<open>strings.Join(elems, sep)\<close>: the empty string for no element, the element itself for
  one, and otherwise the first element followed by \<open>sep\<close> and the next element, for each
  further element.
\<close>

fun Join :: \<open>string list \<Rightarrow> string \<Rightarrow> string\<close> where
  \<open>Join [] sep = []\<close>
| \<open>Join [e] sep = e\<close>
| \<open>Join (e # f # es) sep = e @ sep @ Join (f # es) sep\<close>

section \<open>Object kinds and grantee kinds\<close>

text \<open>
  \<^verbatim>\<open>type grantType string\<close> with its block of sixteen constants is the enumeration of
  the object kinds; \<open>grantType_string\<close> gives the string each constant is declared with,
  which is what \<^verbatim>\<open>%v\<close> and the conversion \<^verbatim>\<open>string(gb.grantType)\<close> produce.
\<close>

datatype grantType =
    accountType
  | resourceMonitorType
  | integrationType
  | databaseType
  | schemaType
  | stageType
  | viewType
  | materializedViewType
  | tableType
  | warehouseType
  | externalTableType
  | fileFormatType
  | functionType
  | procedureType
  | sequenceType
  | streamType

fun grantType_string :: \<open>grantType \<Rightarrow> string\<close> where
  \<open>grantType_string accountType = ''ACCOUNT''\<close>
| \<open>grantType_string resourceMonitorType = ''RESOURCE MONITOR''\<close>
| \<open>grantType_string integrationType = ''INTEGRATION''\<close>
| \<open>grantType_string databaseType = ''DATABASE''\<close>
| \<open>grantType_string schemaType = ''SCHEMA''\<close>
| \<open>grantType_string stageType = ''STAGE''\<close>
| \<open>grantType_string viewType = ''VIEW''\<close>
| \<open>grantType_string materializedViewType = ''MATERIALIZED VIEW''\<close>
| \<open>grantType_string tableType = ''TABLE''\<close>
| \<open>grantType_string warehouseType = ''WAREHOUSE''\<close>
| \<open>grantType_string externalTableType = ''EXTERNAL TABLE''\<close>
| \<open>grantType_string fileFormatType = ''FILE FORMAT''\<close>
| \<open>grantType_string functionType = ''FUNCTION''\<close>
| \<open>grantType_string procedureType = ''PROCEDURE''\<close>
| \<open>grantType_string sequenceType = ''SEQUENCE''\<close>
| \<open>grantType_string streamType = ''STREAM''\<close>

datatype granteeType =
    roleType
  | shareType
  | userType

fun granteeType_string :: \<open>granteeType \<Rightarrow> string\<close> where
  \<open>granteeType_string roleType = ''ROLE''\<close>
| \<open>granteeType_string shareType = ''SHARE''\<close>
| \<open>granteeType_string userType = ''USER''\<close>

section \<open>Grant executables\<close>

text \<open>
  The struct \<^verbatim>\<open>CurrentGrantExecutable\<close>, the only implementation of the interface
  \<^verbatim>\<open>GrantExecutable\<close>. Its field \<^verbatim>\<open>grantType\<close> is written \<open>grantType_ge\<close> here, since
  the builders have a field of the same name.
\<close>

record CurrentGrantExecutable =
  grantName :: string
  grantType_ge :: grantType
  granteeName :: string
  granteeType :: granteeType

type_synonym GrantExecutable = CurrentGrantExecutable

definition Grant :: \<open>GrantExecutable \<Rightarrow> string \<Rightarrow> bool \<Rightarrow> string\<close> where
  \<open>Grant ge p w =
     (let template =
        (if p = ''OWNERSHIP'' then ''GRANT %v ON %v %v TO %v "%v" COPY CURRENT GRANTS''
         else if w then ''GRANT %v ON %v %v TO %v "%v" WITH GRANT OPTION''
         else ''GRANT %v ON %v %v TO %v "%v"'')
      in Sprintf template
           [p, grantType_string (grantType_ge ge), grantName ge,
            granteeType_string (granteeType ge), granteeName ge])\<close>

definition Revoke :: \<open>GrantExecutable \<Rightarrow> string \<Rightarrow> string\<close> where
  \<open>Revoke ge p =
     Sprintf ''REVOKE %v ON %v %v FROM %v "%v"''
       [p, grantType_string (grantType_ge ge), grantName ge,
        granteeType_string (granteeType ge), granteeName ge]\<close>

definition Show_ge :: \<open>GrantExecutable \<Rightarrow> string\<close> where
  \<open>Show_ge ge =
     Sprintf ''SHOW GRANTS OF %v "%v"''
       [granteeType_string (granteeType ge), granteeName ge]\<close>

section \<open>Grant builders\<close>

text \<open>
  The two structs that implement the interface \<^verbatim>\<open>GrantBuilder\<close>. They have the same
  three fields; those of \<^verbatim>\<open>CurrentMaterializedViewGrantBuilder\<close> carry the suffix
  \<open>_mv\<close> here. A field a Go composite literal leaves out is the empty string.
\<close>

record CurrentGrantBuilder =
  name :: string
  qualifiedName :: string
  grantType :: grantType

record CurrentMaterializedViewGrantBuilder =
  name_mv :: string
  qualifiedName_mv :: string
  grantType_mv :: grantType

datatype GrantBuilder =
    Current CurrentGrantBuilder
  | CurrentMaterializedView CurrentMaterializedViewGrantBuilder

text \<open>The methods of the interface, each dispatching on the struct behind the value.\<close>

fun Name :: \<open>GrantBuilder \<Rightarrow> string\<close> where
  \<open>Name (Current gb) = name gb\<close>
| \<open>Name (CurrentMaterializedView gb) = name_mv gb\<close>

fun GrantType :: \<open>GrantBuilder \<Rightarrow> string\<close> where
  \<open>GrantType (Current gb) = grantType_string (grantType gb)\<close>
| \<open>GrantType (CurrentMaterializedView gb) = grantType_string (grantType_mv gb)\<close>

fun Show :: \<open>GrantBuilder \<Rightarrow> string\<close> where
  \<open>Show (Current gb) =
     Sprintf ''SHOW GRANTS ON %v %v'' [grantType_string (grantType gb), qualifiedName gb]\<close>
| \<open>Show (CurrentMaterializedView gb) =
     Sprintf ''SHOW GRANTS ON %v %v'' [grantType_string (grantType_mv gb), qualifiedName_mv gb]\<close>

fun Role :: \<open>GrantBuilder \<Rightarrow> string \<Rightarrow> GrantExecutable\<close> where
  \<open>Role (Current gb) n =
     \<lparr>grantName = qualifiedName gb, grantType_ge = grantType gb,
      granteeName = n, granteeType = roleType\<rparr>\<close>
| \<open>Role (CurrentMaterializedView gb) n =
     \<lparr>grantName = qualifiedName_mv gb, grantType_ge = viewType,
      granteeName = n, granteeType = roleType\<rparr>\<close>

fun Share :: \<open>GrantBuilder \<Rightarrow> string \<Rightarrow> GrantExecutable\<close> where
  \<open>Share (Current gb) n =
     \<lparr>grantName = qualifiedName gb, grantType_ge = grantType gb,
      granteeName = n, granteeType = shareType\<rparr>\<close>
| \<open>Share (CurrentMaterializedView gb) n =
     \<lparr>grantName = qualifiedName_mv gb, grantType_ge = viewType,
      granteeName = n, granteeType = shareType\<rparr>\<close>

subsection \<open>The constructors, one per object kind\<close>

definition AccountGrant :: \<open>GrantBuilder\<close> where
  \<open>AccountGrant =
     Current \<lparr>name = [], qualifiedName = [], grantType = accountType\<rparr>\<close>

definition DatabaseGrant :: \<open>string \<Rightarrow> GrantBuilder\<close> where
  \<open>DatabaseGrant nm =
     Current \<lparr>name = nm, qualifiedName = Sprintf ''"%v"'' [nm], grantType = databaseType\<rparr>\<close>

definition SchemaGrant :: \<open>string \<Rightarrow> string \<Rightarrow> GrantBuilder\<close> where
  \<open>SchemaGrant db schema =
     Current \<lparr>name = schema, qualifiedName = Sprintf ''"%v"."%v"'' [db, schema],
              grantType = schemaType\<rparr>\<close>

definition StageGrant :: \<open>string \<Rightarrow> string \<Rightarrow> string \<Rightarrow> GrantBuilder\<close> where
  \<open>StageGrant db schema stage =
     Current \<lparr>name = stage, qualifiedName = Sprintf ''"%v"."%v"."%v"'' [db, schema, stage],
              grantType = stageType\<rparr>\<close>

definition ViewGrant :: \<open>string \<Rightarrow> string \<Rightarrow> string \<Rightarrow> GrantBuilder\<close> where
  \<open>ViewGrant db schema view =
     Current \<lparr>name = view, qualifiedName = Sprintf ''"%v"."%v"."%v"'' [db, schema, view],
              grantType = viewType\<rparr>\<close>

definition MaterializedViewGrant :: \<open>string \<Rightarrow> string \<Rightarrow> string \<Rightarrow> GrantBuilder\<close> where
  \<open>MaterializedViewGrant db schema view =
     CurrentMaterializedView
       \<lparr>name_mv = view, qualifiedName_mv = Sprintf ''"%v"."%v"."%v"'' [db, schema, view],
        grantType_mv = materializedViewType\<rparr>\<close>

definition TableGrant :: \<open>string \<Rightarrow> string \<Rightarrow> string \<Rightarrow> GrantBuilder\<close> where
  \<open>TableGrant db schema table =
     Current \<lparr>name = table, qualifiedName = Sprintf ''"%v"."%v"."%v"'' [db, schema, table],
              grantType = tableType\<rparr>\<close>

definition ResourceMonitorGrant :: \<open>string \<Rightarrow> GrantBuilder\<close> where
  \<open>ResourceMonitorGrant w =
     Current \<lparr>name = w, qualifiedName = Sprintf ''"%v"'' [w],
              grantType = resourceMonitorType\<rparr>\<close>

definition IntegrationGrant :: \<open>string \<Rightarrow> GrantBuilder\<close> where
  \<open>IntegrationGrant w =
     Current \<lparr>name = w, qualifiedName = Sprintf ''"%v"'' [w], grantType = integrationType\<rparr>\<close>

definition WarehouseGrant :: \<open>string \<Rightarrow> GrantBuilder\<close> where
  \<open>WarehouseGrant w =
     Current \<lparr>name = w, qualifiedName = Sprintf ''"%v"'' [w], grantType = warehouseType\<rparr>\<close>

definition ExternalTableGrant :: \<open>string \<Rightarrow> string \<Rightarrow> string \<Rightarrow> GrantBuilder\<close> where
  \<open>ExternalTableGrant db schema externalTable =
     Current \<lparr>name = externalTable,
              qualifiedName = Sprintf ''"%v"."%v"."%v"'' [db, schema, externalTable],
              grantType = externalTableType\<rparr>\<close>

definition FileFormatGrant :: \<open>string \<Rightarrow> string \<Rightarrow> string \<Rightarrow> GrantBuilder\<close> where
  \<open>FileFormatGrant db schema fileFormat =
     Current \<lparr>name = fileFormat,
              qualifiedName = Sprintf ''"%v"."%v"."%v"'' [db, schema, fileFormat],
              grantType = fileFormatType\<rparr>\<close>

definition FunctionGrant :: \<open>string \<Rightarrow> string \<Rightarrow> string \<Rightarrow> string list \<Rightarrow> GrantBuilder\<close> where
  \<open>FunctionGrant db schema function argumentTypes =
     Current \<lparr>name = function,
              qualifiedName =
                Sprintf ''"%v"."%v"."%v"(%v)'' [db, schema, function, Join argumentTypes '', ''],
              grantType = functionType\<rparr>\<close>

definition ProcedureGrant :: \<open>string \<Rightarrow> string \<Rightarrow> string \<Rightarrow> string list \<Rightarrow> GrantBuilder\<close> where
  \<open>ProcedureGrant db schema procedure argumentTypes =
     Current \<lparr>name = procedure,
              qualifiedName =
                Sprintf ''"%v"."%v"."%v"(%v)'' [db, schema, procedure, Join argumentTypes '', ''],
              grantType = procedureType\<rparr>\<close>

definition SequenceGrant :: \<open>string \<Rightarrow> string \<Rightarrow> string \<Rightarrow> GrantBuilder\<close> where
  \<open>SequenceGrant db schema sequence =
     Current \<lparr>name = sequence,
              qualifiedName = Sprintf ''"%v"."%v"."%v"'' [db, schema, sequence],
              grantType = sequenceType\<rparr>\<close>

definition StreamGrant :: \<open>string \<Rightarrow> string \<Rightarrow> string \<Rightarrow> GrantBuilder\<close> where
  \<open>StreamGrant db schema stream =
     Current \<lparr>name = stream, qualifiedName = Sprintf ''"%v"."%v"."%v"'' [db, schema, stream],
              grantType = streamType\<rparr>\<close>

section \<open>What the templates render\<close>

lemma Sprintf_quote1: \<open>Sprintf ''"%v"'' [a] = ''"'' @ a @ ''"''\<close>
  by simp

lemma Sprintf_quote2: \<open>Sprintf ''"%v"."%v"'' [a, b] = ''"'' @ a @ ''"."'' @ b @ ''"''\<close>
  by simp

lemma Sprintf_quote3:
  \<open>Sprintf ''"%v"."%v"."%v"'' [a, b, c] = ''"'' @ a @ ''"."'' @ b @ ''"."'' @ c @ ''"''\<close>
  by simp

lemma Sprintf_quote3_args:
  \<open>Sprintf ''"%v"."%v"."%v"(%v)'' [a, b, c, d] =
     ''"'' @ a @ ''"."'' @ b @ ''"."'' @ c @ ''"('' @ d @ '')''\<close>
  by simp

lemma Grant_render:
  \<open>Grant ge p w =
     ''GRANT '' @ p @ '' ON '' @ grantType_string (grantType_ge ge) @ '' '' @ grantName ge @
     '' TO '' @ granteeType_string (granteeType ge) @ '' "'' @ granteeName ge @ ''"'' @
     (if p = ''OWNERSHIP'' then '' COPY CURRENT GRANTS''
      else if w then '' WITH GRANT OPTION'' else [])\<close>
  by (simp add: Grant_def)

lemma Revoke_render:
  \<open>Revoke ge p =
     ''REVOKE '' @ p @ '' ON '' @ grantType_string (grantType_ge ge) @ '' '' @ grantName ge @
     '' FROM '' @ granteeType_string (granteeType ge) @ '' "'' @ granteeName ge @ ''"''\<close>
  by (simp add: Revoke_def)

lemma Show_ge_render:
  \<open>Show_ge ge =
     ''SHOW GRANTS OF '' @ granteeType_string (granteeType ge) @ '' "'' @ granteeName ge @ ''"''\<close>
  by (simp add: Show_ge_def)

lemma Join_Cons: \<open>Join (e # es) sep = e @ concat (map (\<lambda>t. sep @ t) es)\<close>
  by (induction es arbitrary: e) simp_all

lemma Role_granteeType: \<open>granteeType (Role gb n) = roleType\<close>
  by (cases gb) simp_all

lemma Share_granteeType: \<open>granteeType (Share gb n) = shareType\<close>
  by (cases gb) simp_all

lemma Role_granteeName: \<open>granteeName (Role gb n) = n\<close>
  by (cases gb) simp_all

lemma Share_granteeName: \<open>granteeName (Share gb n) = n\<close>
  by (cases gb) simp_all

section \<open>The builder's Show\<close>

text \<open>
  Claim C1, as the code has it. The account-level builder has the empty qualified name, and
  \<open>Show\<close> uses the one template \<^verbatim>\<open>SHOW GRANTS ON %v %v\<close> for every kind: for
  \<open>AccountGrant\<close> it returns \<^verbatim>\<open>SHOW GRANTS ON ACCOUNT\<close> followed by the template's
  separating space and the empty qualified name, that is one byte more than the statement
  without a trailing space.
\<close>

theorem AccountGrant_Show_trailing_space:
  \<open>Show AccountGrant = ''SHOW GRANTS ON ACCOUNT '' \<and>
   Show AccountGrant = ''SHOW GRANTS ON ACCOUNT'' @ '' '' @ [] \<and>
   length (Show AccountGrant) = length ''SHOW GRANTS ON ACCOUNT'' + 1\<close>
  by (simp add: AccountGrant_def)

text \<open>
  Claim C1 as stated (the result is exactly \<^verbatim>\<open>SHOW GRANTS ON ACCOUNT\<close>, with no trailing
  space) fails on the account-level builder.
\<close>

theorem AccountGrant_Show_counterexample:
  \<open>Show AccountGrant \<noteq> ''SHOW GRANTS ON ACCOUNT''\<close>
  by (simp add: AccountGrant_def)

section \<open>Grant, Revoke and Show of an executable\<close>

text \<open>
  Claim C3. For the privilege \<^verbatim>\<open>OWNERSHIP\<close>, \<open>Grant\<close> renders the statement that ends
  with \<^verbatim>\<open>COPY CURRENT GRANTS\<close>, whatever the grant-option flag is; the comparison is
  exact, so that the lower-case \<^verbatim>\<open>ownership\<close> still depends on the flag. The schema example
  of the specification is the last conjunct.
\<close>

theorem Grant_ownership:
  \<open>Grant ge ''OWNERSHIP'' w =
     ''GRANT OWNERSHIP ON '' @ grantType_string (grantType_ge ge) @ '' '' @ grantName ge @
     '' TO '' @ granteeType_string (granteeType ge) @ '' "'' @ granteeName ge @
     ''" COPY CURRENT GRANTS'' \<and>
   Grant ge ''OWNERSHIP'' True = Grant ge ''OWNERSHIP'' False \<and>
   Grant ge ''ownership'' True \<noteq> Grant ge ''ownership'' False \<and>
   Grant (Role (SchemaGrant ''DB'' ''SCH'') ''ADMIN'') ''OWNERSHIP'' False =
     ''GRANT OWNERSHIP ON SCHEMA "DB"."SCH" TO ROLE "ADMIN" COPY CURRENT GRANTS''\<close>
  by (simp add: Grant_render SchemaGrant_def)

text \<open>
  Claim C5. \<open>Revoke\<close> renders \<^verbatim>\<open>REVOKE p ON kind name FROM GRANTEE-KIND "grantee"\<close> for
  every privilege, \<^verbatim>\<open>OWNERSHIP\<close> included. It is a function of the executable's fields and
  of the privilege only; the statement ends with the quote that closes the grantee name, so
  neither clause of the \<open>Grant\<close> templates follows it.
\<close>

theorem Revoke_unconditional:
  \<open>Revoke ge p =
     ''REVOKE '' @ p @ '' ON '' @ grantType_string (grantType_ge ge) @ '' '' @ grantName ge @
     '' FROM '' @ granteeType_string (granteeType ge) @ '' "'' @ granteeName ge @ ''"'' \<and>
   Revoke ge ''OWNERSHIP'' =
     ''REVOKE OWNERSHIP ON '' @ grantType_string (grantType_ge ge) @ '' '' @ grantName ge @
     '' FROM '' @ granteeType_string (granteeType ge) @ '' "'' @ granteeName ge @ ''"'' \<and>
   last (Revoke ge p) = CHR 0x22 \<and>
   \<not> suffix ''COPY CURRENT GRANTS'' (Revoke ge p) \<and>
   \<not> suffix ''WITH GRANT OPTION'' (Revoke ge p)\<close>
  by (simp add: Revoke_render suffix_to_prefix)

text \<open>
  Claim C6. \<open>Show_ge\<close>, the executable's \<^verbatim>\<open>Show\<close>, renders
  \<^verbatim>\<open>SHOW GRANTS OF GRANTEE-KIND "grantee"\<close>; changing the target object's kind and
  qualified name does not change it. The warehouse example of the specification is the
  last conjunct.
\<close>

theorem Show_ge_grantee_only:
  \<open>Show_ge ge =
     ''SHOW GRANTS OF '' @ granteeType_string (granteeType ge) @ '' "'' @ granteeName ge @ ''"'' \<and>
   Show_ge (ge\<lparr>grantName := qn, grantType_ge := k\<rparr>) = Show_ge ge \<and>
   Show_ge (Share (WarehouseGrant ''WH1'') ''PARTNER'') = ''SHOW GRANTS OF SHARE "PARTNER"''\<close>
  by (simp add: Show_ge_render WarehouseGrant_def)

text \<open>
  Claim C9. \<open>Role\<close> and \<open>Share\<close> are the only ways from a builder to an executable; the
  grantee kind they record is \<open>roleType\<close> and \<open>shareType\<close>, never \<open>userType\<close>, for both
  builder structs, and every statement of such an executable has the keyword
  \<^verbatim>\<open>ROLE\<close> or \<^verbatim>\<open>SHARE\<close> in front of the quoted grantee name.
\<close>

theorem grantee_kind_role_or_share:
  \<open>granteeType (Role gb n) = roleType \<and> granteeType (Share gb n) = shareType \<and>
   granteeType (Role gb n) \<noteq> userType \<and> granteeType (Share gb n) \<noteq> userType \<and>
   (\<exists>pre post. Grant (Role gb n) p w = pre @ '' TO ROLE "'' @ n @ ''"'' @ post) \<and>
   (\<exists>pre post. Grant (Share gb n) p w = pre @ '' TO SHARE "'' @ n @ ''"'' @ post) \<and>
   (\<exists>pre. Revoke (Role gb n) p = pre @ '' FROM ROLE "'' @ n @ ''"'') \<and>
   (\<exists>pre. Revoke (Share gb n) p = pre @ '' FROM SHARE "'' @ n @ ''"'') \<and>
   Show_ge (Role gb n) = ''SHOW GRANTS OF ROLE "'' @ n @ ''"'' \<and>
   Show_ge (Share gb n) = ''SHOW GRANTS OF SHARE "'' @ n @ ''"''\<close>
proof -
  let ?tail = \<open>if p = ''OWNERSHIP'' then '' COPY CURRENT GRANTS''
               else if w then '' WITH GRANT OPTION'' else []\<close>
  have g1: \<open>Grant (Role gb n) p w =
      (''GRANT '' @ p @ '' ON '' @ grantType_string (grantType_ge (Role gb n)) @ '' '' @
       grantName (Role gb n)) @ '' TO ROLE "'' @ n @ ''"'' @ ?tail\<close>
    by (simp add: Grant_render Role_granteeType Role_granteeName)
  have g2: \<open>Grant (Share gb n) p w =
      (''GRANT '' @ p @ '' ON '' @ grantType_string (grantType_ge (Share gb n)) @ '' '' @
       grantName (Share gb n)) @ '' TO SHARE "'' @ n @ ''"'' @ ?tail\<close>
    by (simp add: Grant_render Share_granteeType Share_granteeName)
  have r1: \<open>Revoke (Role gb n) p =
      (''REVOKE '' @ p @ '' ON '' @ grantType_string (grantType_ge (Role gb n)) @ '' '' @
       grantName (Role gb n)) @ '' FROM ROLE "'' @ n @ ''"''\<close>
    by (simp add: Revoke_render Role_granteeType Role_granteeName)
  have r2: \<open>Revoke (Share gb n) p =
      (''REVOKE '' @ p @ '' ON '' @ grantType_string (grantType_ge (Share gb n)) @ '' '' @
       grantName (Share gb n)) @ '' FROM SHARE "'' @ n @ ''"''\<close>
    by (simp add: Revoke_render Share_granteeType Share_granteeName)
  have s: \<open>Show_ge (Role gb n) = ''SHOW GRANTS OF ROLE "'' @ n @ ''"''\<close>
      \<open>Show_ge (Share gb n) = ''SHOW GRANTS OF SHARE "'' @ n @ ''"''\<close>
    by (simp_all add: Show_ge_render Role_granteeType Role_granteeName
          Share_granteeType Share_granteeName)
  from g1 g2 r1 r2 s show ?thesis
    by (simp only: Role_granteeType Share_granteeType) blast
qed

section \<open>Qualified names\<close>

text \<open>
  Claim C7. \<open>FunctionGrant\<close> and \<open>ProcedureGrant\<close> build the qualified name from the three
  quoted name parts and the parenthesised argument types: the types are inserted as they
  are, each one after the first preceded by a comma and a space. No argument type gives
  \<^verbatim>\<open>()\<close>; the example of the specification is evaluated as well.
\<close>

theorem FunctionGrant_ProcedureGrant_qualifiedName:
  \<open>FunctionGrant db schema f argumentTypes =
     Current \<lparr>name = f,
              qualifiedName =
                ''"'' @ db @ ''"."'' @ schema @ ''"."'' @ f @ ''"('' @
                (case argumentTypes of [] \<Rightarrow> [] | t # ts \<Rightarrow> t @ concat (map (\<lambda>u. '', '' @ u) ts)) @
                '')'',
              grantType = functionType\<rparr> \<and>
   ProcedureGrant db schema f argumentTypes =
     Current \<lparr>name = f,
              qualifiedName =
                ''"'' @ db @ ''"."'' @ schema @ ''"."'' @ f @ ''"('' @
                (case argumentTypes of [] \<Rightarrow> [] | t # ts \<Rightarrow> t @ concat (map (\<lambda>u. '', '' @ u) ts)) @
                '')'',
              grantType = procedureType\<rparr> \<and>
   grantName (Role (FunctionGrant db schema f []) n) =
     ''"'' @ db @ ''"."'' @ schema @ ''"."'' @ f @ ''"()'' \<and>
   grantName (Role (ProcedureGrant db schema f []) n) =
     ''"'' @ db @ ''"."'' @ schema @ ''"."'' @ f @ ''"()'' \<and>
   grantName (Role (FunctionGrant ''DB'' ''S'' ''F'' [''NUMBER'', ''VARCHAR'']) n) =
     ''"DB"."S"."F"(NUMBER, VARCHAR)'' \<and>
   grantName (Role (ProcedureGrant ''DB'' ''S'' ''F'' [''NUMBER'', ''VARCHAR'']) n) =
     ''"DB"."S"."F"(NUMBER, VARCHAR)'' \<and>
   Show (FunctionGrant ''DB'' ''S'' ''F'' []) = ''SHOW GRANTS ON FUNCTION "DB"."S"."F"()''\<close>
proof -
  have j: \<open>Join argumentTypes '', '' =
      (case argumentTypes of [] \<Rightarrow> [] | t # ts \<Rightarrow> t @ concat (map (\<lambda>u. '', '' @ u) ts))\<close>
    by (cases argumentTypes) (simp_all only: Join.simps(1) Join_Cons list.case)
  have f: \<open>FunctionGrant db schema f argumentTypes =
     Current \<lparr>name = f,
              qualifiedName =
                ''"'' @ db @ ''"."'' @ schema @ ''"."'' @ f @ ''"('' @
                Join argumentTypes '', '' @ '')'',
              grantType = functionType\<rparr>\<close>
    by (simp add: FunctionGrant_def)
  have p: \<open>ProcedureGrant db schema f argumentTypes =
     Current \<lparr>name = f,
              qualifiedName =
                ''"'' @ db @ ''"."'' @ schema @ ''"."'' @ f @ ''"('' @
                Join argumentTypes '', '' @ '')'',
              grantType = procedureType\<rparr>\<close>
    by (simp add: ProcedureGrant_def)
  have e: \<open>grantName (Role (FunctionGrant db schema f []) n) =
       ''"'' @ db @ ''"."'' @ schema @ ''"."'' @ f @ ''"()''\<close>
     \<open>grantName (Role (ProcedureGrant db schema f []) n) =
       ''"'' @ db @ ''"."'' @ schema @ ''"."'' @ f @ ''"()''\<close>
     \<open>grantName (Role (FunctionGrant ''DB'' ''S'' ''F'' [''NUMBER'', ''VARCHAR'']) n) =
       ''"DB"."S"."F"(NUMBER, VARCHAR)''\<close>
     \<open>grantName (Role (ProcedureGrant ''DB'' ''S'' ''F'' [''NUMBER'', ''VARCHAR'']) n) =
       ''"DB"."S"."F"(NUMBER, VARCHAR)''\<close>
     \<open>Show (FunctionGrant ''DB'' ''S'' ''F'' []) = ''SHOW GRANTS ON FUNCTION "DB"."S"."F"()''\<close>
    by (simp_all add: FunctionGrant_def ProcedureGrant_def)
  from f p e show ?thesis
    unfolding j by (intro conjI)
qed

text \<open>
  Claim C8. Each of the eight builders that take a database, a schema and an object name
  quotes the three parts and joins them with dots; the table example of the specification,
  from the constructor to the rendered \<open>Grant\<close>, is the last conjunct.
\<close>

theorem three_segment_qualifiedName:
  \<open>StageGrant db schema obj =
     Current \<lparr>name = obj, qualifiedName = ''"'' @ db @ ''"."'' @ schema @ ''"."'' @ obj @ ''"'',
              grantType = stageType\<rparr> \<and>
   ViewGrant db schema obj =
     Current \<lparr>name = obj, qualifiedName = ''"'' @ db @ ''"."'' @ schema @ ''"."'' @ obj @ ''"'',
              grantType = viewType\<rparr> \<and>
   MaterializedViewGrant db schema obj =
     CurrentMaterializedView
       \<lparr>name_mv = obj, qualifiedName_mv = ''"'' @ db @ ''"."'' @ schema @ ''"."'' @ obj @ ''"'',
        grantType_mv = materializedViewType\<rparr> \<and>
   TableGrant db schema obj =
     Current \<lparr>name = obj, qualifiedName = ''"'' @ db @ ''"."'' @ schema @ ''"."'' @ obj @ ''"'',
              grantType = tableType\<rparr> \<and>
   ExternalTableGrant db schema obj =
     Current \<lparr>name = obj, qualifiedName = ''"'' @ db @ ''"."'' @ schema @ ''"."'' @ obj @ ''"'',
              grantType = externalTableType\<rparr> \<and>
   FileFormatGrant db schema obj =
     Current \<lparr>name = obj, qualifiedName = ''"'' @ db @ ''"."'' @ schema @ ''"."'' @ obj @ ''"'',
              grantType = fileFormatType\<rparr> \<and>
   SequenceGrant db schema obj =
     Current \<lparr>name = obj, qualifiedName = ''"'' @ db @ ''"."'' @ schema @ ''"."'' @ obj @ ''"'',
              grantType = sequenceType\<rparr> \<and>
   StreamGrant db schema obj =
     Current \<lparr>name = obj, qualifiedName = ''"'' @ db @ ''"."'' @ schema @ ''"."'' @ obj @ ''"'',
              grantType = streamType\<rparr> \<and>
   Grant (Role (TableGrant ''DB'' ''SCH'' ''T'') ''ANALYST'') ''SELECT'' False =
     ''GRANT SELECT ON TABLE "DB"."SCH"."T" TO ROLE "ANALYST"''\<close>
  by (simp add: StageGrant_def ViewGrant_def MaterializedViewGrant_def TableGrant_def
        ExternalTableGrant_def FileFormatGrant_def SequenceGrant_def StreamGrant_def
        Grant_render)

text \<open>
  Claim C10. Names are embedded between two double quotes byte for byte, and nothing is
  escaped. For every name, each quoted segment of the qualified name that any of the
  fifteen named constructors builds is a double quote, the name as it is, and a double
  quote: one segment for a database, resource monitor, integration or warehouse, two for
  a schema, three for the other kinds (followed by the argument types for a function or a
  procedure). For every executable, privilege and flag, \<open>Grant\<close>, \<open>Revoke\<close> and \<open>Show_ge\<close>
  embed the grantee name in the same way, and \<open>Role\<close> and \<open>Share\<close> record the grantee name
  they are given unchanged. A quoted segment therefore has exactly two double quotes more
  than the name it holds: a name with a double quote in it gives unbalanced quoting, as
  the database \<^verbatim>\<open>a"b\<close> and the role \<^verbatim>\<open>r"s\<close> show.
\<close>

theorem names_embedded_verbatim:
  fixes s db schema obj n p :: string and w :: bool and ge :: GrantExecutable
    and gb :: GrantBuilder and argumentTypes :: \<open>string list\<close>
  defines \<open>q1 \<equiv> ''"'' @ s @ ''"''\<close>
  defines \<open>q2 \<equiv> ''"'' @ db @ ''"'' @ ''.'' @ ''"'' @ schema @ ''"''\<close>
  defines \<open>q3 \<equiv> ''"'' @ db @ ''"'' @ ''.'' @ ''"'' @ schema @ ''"'' @ ''.'' @ ''"'' @ obj @ ''"''\<close>
  defines \<open>quotes \<equiv> \<lambda>t. length (filter (\<lambda>c. c = CHR 0x22) t)\<close>
  shows
  \<open>DatabaseGrant s = Current \<lparr>name = s, qualifiedName = q1, grantType = databaseType\<rparr> \<and>
   ResourceMonitorGrant s =
     Current \<lparr>name = s, qualifiedName = q1, grantType = resourceMonitorType\<rparr> \<and>
   IntegrationGrant s = Current \<lparr>name = s, qualifiedName = q1, grantType = integrationType\<rparr> \<and>
   WarehouseGrant s = Current \<lparr>name = s, qualifiedName = q1, grantType = warehouseType\<rparr> \<and>
   SchemaGrant db schema =
     Current \<lparr>name = schema, qualifiedName = q2, grantType = schemaType\<rparr> \<and>
   StageGrant db schema obj = Current \<lparr>name = obj, qualifiedName = q3, grantType = stageType\<rparr> \<and>
   ViewGrant db schema obj = Current \<lparr>name = obj, qualifiedName = q3, grantType = viewType\<rparr> \<and>
   MaterializedViewGrant db schema obj =
     CurrentMaterializedView
       \<lparr>name_mv = obj, qualifiedName_mv = q3, grantType_mv = materializedViewType\<rparr> \<and>
   TableGrant db schema obj = Current \<lparr>name = obj, qualifiedName = q3, grantType = tableType\<rparr> \<and>
   ExternalTableGrant db schema obj =
     Current \<lparr>name = obj, qualifiedName = q3, grantType = externalTableType\<rparr> \<and>
   FileFormatGrant db schema obj =
     Current \<lparr>name = obj, qualifiedName = q3, grantType = fileFormatType\<rparr> \<and>
   SequenceGrant db schema obj =
     Current \<lparr>name = obj, qualifiedName = q3, grantType = sequenceType\<rparr> \<and>
   StreamGrant db schema obj = Current \<lparr>name = obj, qualifiedName = q3, grantType = streamType\<rparr> \<and>
   FunctionGrant db schema obj argumentTypes =
     Current \<lparr>name = obj, qualifiedName = q3 @ ''('' @ Join argumentTypes '', '' @ '')'',
              grantType = functionType\<rparr> \<and>
   ProcedureGrant db schema obj argumentTypes =
     Current \<lparr>name = obj, qualifiedName = q3 @ ''('' @ Join argumentTypes '', '' @ '')'',
              grantType = procedureType\<rparr> \<and>
   grantName (Role (DatabaseGrant s) n) = q1 \<and>
   grantName (Share (DatabaseGrant s) n) = q1 \<and>
   length q1 = length s + 2 \<and>
   quotes q1 = quotes s + 2 \<and>
   granteeName (Role gb n) = n \<and>
   granteeName (Share gb n) = n \<and>
   Grant ge p w =
     ''GRANT '' @ p @ '' ON '' @ grantType_string (grantType_ge ge) @ '' '' @ grantName ge @
     '' TO '' @ granteeType_string (granteeType ge) @ '' '' @ ''"'' @ granteeName ge @ ''"'' @
     (if p = ''OWNERSHIP'' then '' COPY CURRENT GRANTS''
      else if w then '' WITH GRANT OPTION'' else []) \<and>
   Revoke ge p =
     ''REVOKE '' @ p @ '' ON '' @ grantType_string (grantType_ge ge) @ '' '' @ grantName ge @
     '' FROM '' @ granteeType_string (granteeType ge) @ '' '' @ ''"'' @ granteeName ge @ ''"'' \<and>
   Show_ge ge =
     ''SHOW GRANTS OF '' @ granteeType_string (granteeType ge) @ '' '' @
     ''"'' @ granteeName ge @ ''"'' \<and>
   Show (DatabaseGrant s) = ''SHOW GRANTS ON DATABASE '' @ ''"'' @ s @ ''"'' \<and>
   Grant (Role (DatabaseGrant s) n) p False =
     ''GRANT '' @ p @ '' ON DATABASE '' @ ''"'' @ s @ ''"'' @ '' TO ROLE '' @ ''"'' @ n @ ''"'' @
     (if p = ''OWNERSHIP'' then '' COPY CURRENT GRANTS'' else []) \<and>
   Revoke (Share (DatabaseGrant s) n) p =
     ''REVOKE '' @ p @ '' ON DATABASE '' @ ''"'' @ s @ ''"'' @ '' FROM SHARE '' @ ''"'' @ n @ ''"'' \<and>
   Show_ge (Role gb n) = ''SHOW GRANTS OF ROLE '' @ ''"'' @ n @ ''"'' \<and>
   Show_ge (Share gb n) = ''SHOW GRANTS OF SHARE '' @ ''"'' @ n @ ''"'' \<and>
   quotes (Show_ge (Role gb n)) = quotes n + 2 \<and>
   quotes (Show (DatabaseGrant s)) = quotes s + 2 \<and>
   grantName (Role (DatabaseGrant ''a"b'') n) = ''"a"b"'' \<and>
   quotes (grantName (Role (DatabaseGrant ''a"b'') n)) = 3 \<and>
   Show (DatabaseGrant ''a"b'') = ''SHOW GRANTS ON DATABASE "a"b"'' \<and>
   Grant (Role (DatabaseGrant ''a"b'') ''r"s'') ''USAGE'' False =
     ''GRANT USAGE ON DATABASE "a"b" TO ROLE "r"s"'' \<and>
   Revoke (Role (DatabaseGrant ''a"b'') ''r"s'') ''USAGE'' =
     ''REVOKE USAGE ON DATABASE "a"b" FROM ROLE "r"s"'' \<and>
   Show_ge (Role (DatabaseGrant ''a"b'') ''r"s'') = ''SHOW GRANTS OF ROLE "r"s"''\<close>
proof -
  have b1: \<open>DatabaseGrant s = Current \<lparr>name = s, qualifiedName = q1, grantType = databaseType\<rparr>\<close>
    \<open>ResourceMonitorGrant s =
       Current \<lparr>name = s, qualifiedName = q1, grantType = resourceMonitorType\<rparr>\<close>
    \<open>IntegrationGrant s = Current \<lparr>name = s, qualifiedName = q1, grantType = integrationType\<rparr>\<close>
    \<open>WarehouseGrant s = Current \<lparr>name = s, qualifiedName = q1, grantType = warehouseType\<rparr>\<close>
    by (simp_all add: q1_def DatabaseGrant_def ResourceMonitorGrant_def IntegrationGrant_def
          WarehouseGrant_def)
  have b2: \<open>SchemaGrant db schema =
      Current \<lparr>name = schema, qualifiedName = q2, grantType = schemaType\<rparr>\<close>
    by (simp add: q2_def SchemaGrant_def)
  have b3: \<open>StageGrant db schema obj =
      Current \<lparr>name = obj, qualifiedName = q3, grantType = stageType\<rparr>\<close>
    \<open>ViewGrant db schema obj = Current \<lparr>name = obj, qualifiedName = q3, grantType = viewType\<rparr>\<close>
    \<open>MaterializedViewGrant db schema obj =
       CurrentMaterializedView
         \<lparr>name_mv = obj, qualifiedName_mv = q3, grantType_mv = materializedViewType\<rparr>\<close>
    \<open>TableGrant db schema obj = Current \<lparr>name = obj, qualifiedName = q3, grantType = tableType\<rparr>\<close>
    \<open>ExternalTableGrant db schema obj =
       Current \<lparr>name = obj, qualifiedName = q3, grantType = externalTableType\<rparr>\<close>
    \<open>FileFormatGrant db schema obj =
       Current \<lparr>name = obj, qualifiedName = q3, grantType = fileFormatType\<rparr>\<close>
    \<open>SequenceGrant db schema obj =
       Current \<lparr>name = obj, qualifiedName = q3, grantType = sequenceType\<rparr>\<close>
    \<open>StreamGrant db schema obj =
       Current \<lparr>name = obj, qualifiedName = q3, grantType = streamType\<rparr>\<close>
    by (simp_all add: q3_def StageGrant_def ViewGrant_def MaterializedViewGrant_def
          TableGrant_def ExternalTableGrant_def FileFormatGrant_def SequenceGrant_def
          StreamGrant_def)
  have b4: \<open>FunctionGrant db schema obj argumentTypes =
      Current \<lparr>name = obj, qualifiedName = q3 @ ''('' @ Join argumentTypes '', '' @ '')'',
               grantType = functionType\<rparr>\<close>
    \<open>ProcedureGrant db schema obj argumentTypes =
      Current \<lparr>name = obj, qualifiedName = q3 @ ''('' @ Join argumentTypes '', '' @ '')'',
               grantType = procedureType\<rparr>\<close>
    by (simp_all add: q3_def FunctionGrant_def ProcedureGrant_def)
  have g: \<open>grantName (Role (DatabaseGrant s) n) = q1\<close>
    \<open>grantName (Share (DatabaseGrant s) n) = q1\<close>
    \<open>length q1 = length s + 2\<close> \<open>quotes q1 = quotes s + 2\<close>
    by (simp_all add: b1 q1_def quotes_def)
  have e: \<open>Grant ge p w =
     ''GRANT '' @ p @ '' ON '' @ grantType_string (grantType_ge ge) @ '' '' @ grantName ge @
     '' TO '' @ granteeType_string (granteeType ge) @ '' '' @ ''"'' @ granteeName ge @ ''"'' @
     (if p = ''OWNERSHIP'' then '' COPY CURRENT GRANTS''
      else if w then '' WITH GRANT OPTION'' else [])\<close>
    \<open>Revoke ge p =
     ''REVOKE '' @ p @ '' ON '' @ grantType_string (grantType_ge ge) @ '' '' @ grantName ge @
     '' FROM '' @ granteeType_string (granteeType ge) @ '' '' @ ''"'' @ granteeName ge @ ''"''\<close>
    \<open>Show_ge ge =
     ''SHOW GRANTS OF '' @ granteeType_string (granteeType ge) @ '' '' @
     ''"'' @ granteeName ge @ ''"''\<close>
    by (simp_all add: Grant_render Revoke_render Show_ge_render)
  have d: \<open>Show (DatabaseGrant s) = ''SHOW GRANTS ON DATABASE '' @ ''"'' @ s @ ''"''\<close>
    \<open>Grant (Role (DatabaseGrant s) n) p False =
     ''GRANT '' @ p @ '' ON DATABASE '' @ ''"'' @ s @ ''"'' @ '' TO ROLE '' @ ''"'' @ n @ ''"'' @
     (if p = ''OWNERSHIP'' then '' COPY CURRENT GRANTS'' else [])\<close>
    \<open>Revoke (Share (DatabaseGrant s) n) p =
     ''REVOKE '' @ p @ '' ON DATABASE '' @ ''"'' @ s @ ''"'' @ '' FROM SHARE '' @ ''"'' @ n @ ''"''\<close>
    by (simp_all add: DatabaseGrant_def Grant_render Revoke_render)
  have s: \<open>Show_ge (Role gb n) = ''SHOW GRANTS OF ROLE '' @ ''"'' @ n @ ''"''\<close>
    \<open>Show_ge (Share gb n) = ''SHOW GRANTS OF SHARE '' @ ''"'' @ n @ ''"''\<close>
    by (simp_all add: Show_ge_render Role_granteeType Role_granteeName
          Share_granteeType Share_granteeName)
  have c: \<open>quotes (Show_ge (Role gb n)) = quotes n + 2\<close>
    \<open>quotes (Show (DatabaseGrant s)) = quotes s + 2\<close>
    unfolding s d by (simp_all add: quotes_def)
  have i: \<open>grantName (Role (DatabaseGrant ''a"b'') n) = ''"a"b"''\<close>
    \<open>quotes (grantName (Role (DatabaseGrant ''a"b'') n)) = 3\<close>
    \<open>Show (DatabaseGrant ''a"b'') = ''SHOW GRANTS ON DATABASE "a"b"''\<close>
    \<open>Grant (Role (DatabaseGrant ''a"b'') ''r"s'') ''USAGE'' False =
       ''GRANT USAGE ON DATABASE "a"b" TO ROLE "r"s"''\<close>
    \<open>Revoke (Role (DatabaseGrant ''a"b'') ''r"s'') ''USAGE'' =
       ''REVOKE USAGE ON DATABASE "a"b" FROM ROLE "r"s"''\<close>
    \<open>Show_ge (Role (DatabaseGrant ''a"b'') ''r"s'') = ''SHOW GRANTS OF ROLE "r"s"''\<close>
    by (simp_all add: DatabaseGrant_def Grant_render Revoke_render Show_ge_render quotes_def)
  from b1 b2 b3 b4 g Role_granteeName [of gb n] Share_granteeName [of gb n] e d s c i
  show ?thesis
    by (intro conjI)
qed

section \<open>Substrings of a rendered statement\<close>

text \<open>
  \<open>sublist P s\<close> is Go's \<^verbatim>\<open>strings.Contains(s, P)\<close> and \<open>suffix P s\<close> is
  \<^verbatim>\<open>strings.HasSuffix(s, P)\<close>. A pattern that occurs in \<open>v @ r\<close> occurs in \<open>v\<close>, or in
  \<open>r\<close>, or it ends with a non-empty piece that \<open>r\<close> starts with. For a fixed pattern and
  a text \<open>r\<close> whose first bytes are known, the last case is decided by evaluation.
\<close>

lemma not_sublist_append:
  assumes v: \<open>\<not> sublist P v\<close> and r: \<open>\<not> sublist P r\<close>
    and ov: \<open>\<forall>s \<in> set (suffixes P). s \<noteq> [] \<longrightarrow> \<not> prefix s r\<close>
  shows \<open>\<not> sublist P (v @ r)\<close>
proof
  assume \<open>sublist P (v @ r)\<close>
  with v r obtain P1 P2 where P: \<open>P = P1 @ P2\<close> and s: \<open>suffix P1 v\<close> and p: \<open>prefix P2 r\<close>
    by (auto simp: sublist_append)
  show False
  proof (cases \<open>P2 = []\<close>)
    case True
    with P s have \<open>suffix P v\<close> by simp
    with v show False by auto
  next
    case False
    moreover from P have \<open>P2 \<in> set (suffixes P)\<close> by (simp add: suffix_def)
    ultimately show False using ov p by blast
  qed
qed

lemma WGO_overlap_TO:
  \<open>\<forall>s \<in> set (suffixes ''WITH GRANT OPTION''). s \<noteq> [] \<longrightarrow> \<not> prefix s ('' TO '' @ r)\<close>
  by simp

lemma WGO_overlap_ON:
  \<open>\<forall>s \<in> set (suffixes ''WITH GRANT OPTION''). s \<noteq> [] \<longrightarrow> \<not> prefix s ('' ON '' @ r)\<close>
  by simp

lemma WGO_not_in_Grant:
  assumes p: \<open>\<not> sublist ''WITH GRANT OPTION'' p\<close>
    and g: \<open>\<not> sublist ''WITH GRANT OPTION'' gn\<close>
    and n: \<open>\<not> sublist ''WITH GRANT OPTION'' n\<close>
  shows \<open>\<not> sublist ''WITH GRANT OPTION''
           (''GRANT '' @ p @ '' ON '' @ grantType_string k @ '' '' @ gn @
            '' TO '' @ granteeType_string t @ '' "'' @ n @ ''"'')\<close>
proof -
  let ?P = \<open>''WITH GRANT OPTION''\<close>
  have r4: \<open>\<not> sublist ?P (n @ ''"'')\<close>
    by (rule not_sublist_append [OF n]) (simp_all add: sublist_Cons_right)
  have r3: \<open>\<not> sublist ?P ('' TO '' @ granteeType_string t @ '' "'' @ n @ ''"'')\<close>
    using r4 by (cases t) (simp_all add: sublist_Cons_right)
  have r2: \<open>\<not> sublist ?P (gn @ '' TO '' @ granteeType_string t @ '' "'' @ n @ ''"'')\<close>
    by (rule not_sublist_append [OF g r3 WGO_overlap_TO])
  have r1: \<open>\<not> sublist ?P ('' ON '' @ grantType_string k @ '' '' @ gn @ '' TO '' @
              granteeType_string t @ '' "'' @ n @ ''"'')\<close>
    using r2 by (cases k) (simp_all add: sublist_Cons_right)
  have r0: \<open>\<not> sublist ?P (p @ '' ON '' @ grantType_string k @ '' '' @ gn @ '' TO '' @
              granteeType_string t @ '' "'' @ n @ ''"'')\<close>
    by (rule not_sublist_append [OF p r1 WGO_overlap_ON])
  show ?thesis
    using r0 by (simp add: sublist_Cons_right)
qed

lemma MV_overlap_ON:
  \<open>\<forall>s \<in> set (suffixes ''MATERIALIZED VIEW''). s \<noteq> [] \<longrightarrow> \<not> prefix s ('' ON '' @ r)\<close>
  by simp

lemma MV_not_in_quoted3:
  assumes a: \<open>\<not> sublist ''MATERIALIZED VIEW'' a\<close>
    and b: \<open>\<not> sublist ''MATERIALIZED VIEW'' b\<close>
    and c: \<open>\<not> sublist ''MATERIALIZED VIEW'' c\<close>
  shows \<open>\<not> sublist ''MATERIALIZED VIEW'' (''"'' @ a @ ''"."'' @ b @ ''"."'' @ c @ ''"'')\<close>
proof -
  let ?P = \<open>''MATERIALIZED VIEW''\<close>
  have q: \<open>\<not> sublist ?P ''"''\<close>
    by (simp add: sublist_Cons_right)
  have r3: \<open>\<not> sublist ?P (c @ ''"'')\<close>
    using not_sublist_append [OF c q] by simp
  have r2: \<open>\<not> sublist ?P (''"."'' @ c @ ''"'')\<close>
    using r3 by (simp add: sublist_Cons_right)
  have r1: \<open>\<not> sublist ?P (b @ ''"."'' @ c @ ''"'')\<close>
    using not_sublist_append [OF b r2] by simp
  have r0: \<open>\<not> sublist ?P (''"."'' @ b @ ''"."'' @ c @ ''"'')\<close>
    using r1 by (simp add: sublist_Cons_right)
  have \<open>\<not> sublist ?P (a @ ''"."'' @ b @ ''"."'' @ c @ ''"'')\<close>
    using not_sublist_append [OF a r0] by simp
  then show ?thesis
    by (simp add: sublist_Cons_right)
qed

lemma MV_not_in_grantee:
  assumes x: \<open>\<not> sublist ''MATERIALIZED VIEW'' x\<close>
    and tail: \<open>tail \<in> {[], '' WITH GRANT OPTION'', '' COPY CURRENT GRANTS''}\<close>
  shows \<open>\<not> sublist ''MATERIALIZED VIEW''
            (granteeType_string t @ '' "'' @ x @ ''"'' @ tail)\<close>
proof -
  let ?P = \<open>''MATERIALIZED VIEW''\<close>
  have q: \<open>\<not> sublist ?P (''"'' @ tail)\<close>
    using tail by (auto simp: sublist_Cons_right)
  have \<open>\<not> sublist ?P (x @ ''"'' @ tail)\<close>
    using not_sublist_append [OF x q] by simp
  then show ?thesis
    by (cases t) (simp_all add: sublist_Cons_right)
qed

lemma MV_not_in_statement:
  assumes p: \<open>\<not> sublist ''MATERIALIZED VIEW'' p\<close>
    and qn: \<open>\<not> sublist ''MATERIALIZED VIEW'' qn\<close>
    and x: \<open>\<not> sublist ''MATERIALIZED VIEW'' x\<close>
    and verb: \<open>verb \<in> {''GRANT '', ''REVOKE ''}\<close>
    and prep: \<open>prep \<in> {'' TO '', '' FROM ''}\<close>
    and tail: \<open>tail \<in> {[], '' WITH GRANT OPTION'', '' COPY CURRENT GRANTS''}\<close>
  shows \<open>\<not> sublist ''MATERIALIZED VIEW''
            (verb @ p @ '' ON '' @ grantType_string viewType @ '' '' @ qn @ prep @
             granteeType_string t @ '' "'' @ x @ ''"'' @ tail)\<close>
proof -
  let ?P = \<open>''MATERIALIZED VIEW''\<close>
  let ?g = \<open>granteeType_string t @ '' "'' @ x @ ''"'' @ tail\<close>
  have g: \<open>\<not> sublist ?P ?g\<close>
    by (rule MV_not_in_grantee [OF x tail])
  have r3: \<open>\<not> sublist ?P (prep @ ?g)\<close>
    using prep g by (auto simp: sublist_Cons_right)
  have ov: \<open>\<forall>s \<in> set (suffixes ?P). s \<noteq> [] \<longrightarrow> \<not> prefix s (prep @ ?g)\<close>
    using prep by auto
  have r2: \<open>\<not> sublist ?P (qn @ prep @ ?g)\<close>
    by (rule not_sublist_append [OF qn r3 ov])
  have r1: \<open>\<not> sublist ?P ('' ON '' @ grantType_string viewType @ '' '' @ qn @ prep @ ?g)\<close>
    using r2 by (simp add: sublist_Cons_right)
  have r0: \<open>\<not> sublist ?P (p @ '' ON '' @ grantType_string viewType @ '' '' @ qn @ prep @ ?g)\<close>
    by (rule not_sublist_append [OF p r1 MV_overlap_ON])
  show ?thesis
    using verb r0 by (auto simp: sublist_Cons_right)
qed

lemma MaterializedViewGrant_render:
  \<open>MaterializedViewGrant db schema view =
     CurrentMaterializedView
       \<lparr>name_mv = view, qualifiedName_mv = ''"'' @ db @ ''"."'' @ schema @ ''"."'' @ view @ ''"'',
        grantType_mv = materializedViewType\<rparr>\<close>
  by (simp add: MaterializedViewGrant_def)

lemma MV_in_statement_iff:
  assumes verb: \<open>verb \<in> {''GRANT '', ''REVOKE ''}\<close>
    and prep: \<open>prep \<in> {'' TO '', '' FROM ''}\<close>
    and tail: \<open>tail \<in> {[], '' WITH GRANT OPTION'', '' COPY CURRENT GRANTS''}\<close>
  shows \<open>sublist ''MATERIALIZED VIEW''
            (verb @ p @ '' ON '' @ grantType_string viewType @ '' '' @
             (''"'' @ db @ ''"."'' @ schema @ ''"."'' @ view @ ''"'') @ prep @
             granteeType_string t @ '' "'' @ x @ ''"'' @ tail) \<longleftrightarrow>
          sublist ''MATERIALIZED VIEW'' p \<or> sublist ''MATERIALIZED VIEW'' db \<or>
          sublist ''MATERIALIZED VIEW'' schema \<or> sublist ''MATERIALIZED VIEW'' view \<or>
          sublist ''MATERIALIZED VIEW'' x\<close>
    (is \<open>sublist ?P ?S \<longleftrightarrow> ?R\<close>)
proof
  assume \<open>sublist ?P ?S\<close>
  then show ?R
    using MV_not_in_statement [OF _ MV_not_in_quoted3 _ verb prep tail, of p db schema view x t]
    by blast
next
  assume ?R
  then consider \<open>sublist ?P p\<close> | \<open>sublist ?P db\<close> | \<open>sublist ?P schema\<close>
    | \<open>sublist ?P view\<close> | \<open>sublist ?P x\<close>
    by blast
  then show \<open>sublist ?P ?S\<close>
    by cases (simp_all add: sublist_append sublist_Cons_right)
qed

text \<open>
  Claim C4, as the code has it. For a privilege other than \<^verbatim>\<open>OWNERSHIP\<close>, \<open>Grant\<close> with
  the grant option renders the statement that ends with \<^verbatim>\<open>WITH GRANT OPTION\<close>, and
  without the option the same statement without that suffix. Privilege, qualified name and
  grantee name are inserted as they are, so the statement without the option contains
  \<^verbatim>\<open>WITH GRANT OPTION\<close> exactly when one of these three does; for the privilege
  \<^verbatim>\<open>SELECT\<close> and names free of it, it does not.
\<close>

theorem Grant_with_grant_option:
  assumes \<open>p \<noteq> ''OWNERSHIP''\<close>
  shows \<open>Grant ge p True =
           ''GRANT '' @ p @ '' ON '' @ grantType_string (grantType_ge ge) @ '' '' @
           grantName ge @ '' TO '' @ granteeType_string (granteeType ge) @ '' "'' @
           granteeName ge @ ''" WITH GRANT OPTION'' \<and>
         suffix ''WITH GRANT OPTION'' (Grant ge p True) \<and>
         Grant ge p False =
           ''GRANT '' @ p @ '' ON '' @ grantType_string (grantType_ge ge) @ '' '' @
           grantName ge @ '' TO '' @ granteeType_string (granteeType ge) @ '' "'' @
           granteeName ge @ ''"'' \<and>
         Grant ge p True = Grant ge p False @ '' WITH GRANT OPTION'' \<and>
         (sublist ''WITH GRANT OPTION'' (Grant ge p False) \<longleftrightarrow>
            sublist ''WITH GRANT OPTION'' p \<or>
            sublist ''WITH GRANT OPTION'' (grantName ge) \<or>
            sublist ''WITH GRANT OPTION'' (granteeName ge))\<close>
proof -
  let ?W = \<open>''WITH GRANT OPTION''\<close>
  let ?base = \<open>''GRANT '' @ p @ '' ON '' @ grantType_string (grantType_ge ge) @ '' '' @
           grantName ge @ '' TO '' @ granteeType_string (granteeType ge) @ '' "'' @
           granteeName ge @ ''"''\<close>
  have t: \<open>Grant ge p True = ?base @ '' WITH GRANT OPTION''\<close>
    using assms by (simp add: Grant_render)
  have f: \<open>Grant ge p False = ?base\<close>
    using assms by (simp add: Grant_render)
  have s: \<open>suffix ?W (Grant ge p True)\<close>
    unfolding t suffix_def
    by (rule exI [of _ \<open>?base @ '' ''\<close>]) simp
  have c: \<open>sublist ?W ?base \<longleftrightarrow>
            sublist ?W p \<or> sublist ?W (grantName ge) \<or> sublist ?W (granteeName ge)\<close>
  proof
    assume \<open>sublist ?W ?base\<close>
    then show \<open>sublist ?W p \<or> sublist ?W (grantName ge) \<or> sublist ?W (granteeName ge)\<close>
      using WGO_not_in_Grant [of p \<open>grantName ge\<close> \<open>granteeName ge\<close>
          \<open>grantType_ge ge\<close> \<open>granteeType ge\<close>]
      by blast
  next
    assume \<open>sublist ?W p \<or> sublist ?W (grantName ge) \<or> sublist ?W (granteeName ge)\<close>
    then show \<open>sublist ?W ?base\<close>
      by (auto simp: sublist_append sublist_Cons_right)
  qed
  from t f s c show ?thesis
    by simp
qed

text \<open>
  The theorem for claim C4 at the table example of the specification, with the privilege
  \<^verbatim>\<open>SELECT\<close>.
\<close>

theorem Grant_with_grant_option_witness:
  \<open>''SELECT'' \<noteq> ''OWNERSHIP'' \<and>
   Grant (Role (TableGrant ''DB'' ''SCH'' ''T'') ''ANALYST'') ''SELECT'' True =
     ''GRANT SELECT ON TABLE "DB"."SCH"."T" TO ROLE "ANALYST" WITH GRANT OPTION'' \<and>
   Grant (Role (TableGrant ''DB'' ''SCH'' ''T'') ''ANALYST'') ''SELECT'' False =
     ''GRANT SELECT ON TABLE "DB"."SCH"."T" TO ROLE "ANALYST"'' \<and>
   suffix ''WITH GRANT OPTION''
     (Grant (Role (TableGrant ''DB'' ''SCH'' ''T'') ''ANALYST'') ''SELECT'' True) \<and>
   \<not> sublist ''WITH GRANT OPTION''
     (Grant (Role (TableGrant ''DB'' ''SCH'' ''T'') ''ANALYST'') ''SELECT'' False)\<close>
proof -
  have h: \<open>''SELECT'' \<noteq> ''OWNERSHIP''\<close>
    by simp
  show ?thesis
    using h Grant_with_grant_option [OF h, of \<open>Role (TableGrant ''DB'' ''SCH'' ''T'') ''ANALYST''\<close>]
    by (simp add: TableGrant_def sublist_Cons_right suffix_to_prefix)
qed

text \<open>
  Claim C4 as stated (for every executable, \<open>Grant\<close> without the option does not contain
  \<^verbatim>\<open>WITH GRANT OPTION\<close>) fails for the privilege \<^verbatim>\<open>SELECT\<close> on a role whose name is
  \<^verbatim>\<open>WITH GRANT OPTION\<close>.
\<close>

theorem Grant_with_grant_option_counterexample:
  \<open>''SELECT'' \<noteq> ''OWNERSHIP'' \<and>
   Grant (Role (DatabaseGrant ''D'') ''WITH GRANT OPTION'') ''SELECT'' False =
     ''GRANT SELECT ON DATABASE "D" TO ROLE "WITH GRANT OPTION"'' \<and>
   sublist ''WITH GRANT OPTION''
     (Grant (Role (DatabaseGrant ''D'') ''WITH GRANT OPTION'') ''SELECT'' False)\<close>
  by (simp add: Grant_render DatabaseGrant_def sublist_Cons_right)

text \<open>
  Claim C2, as the code has it. The builder of a materialized view shows its grants with
  the keyword \<^verbatim>\<open>MATERIALIZED VIEW\<close>; the executables of \<open>Role\<close> and \<open>Share\<close> record the
  kind \<open>viewType\<close>, so \<open>Grant\<close> and \<open>Revoke\<close> render \<^verbatim>\<open>ON VIEW\<close> in front of the
  qualified name. Privilege and names are inserted as they are: such a statement contains
  \<^verbatim>\<open>MATERIALIZED VIEW\<close> exactly when the privilege, the database, schema or view name, or
  the grantee name contains it.
\<close>

theorem MaterializedViewGrant_keywords:
  fixes db schema view x p :: string and w :: bool
  defines \<open>gb \<equiv> MaterializedViewGrant db schema view\<close>
  defines \<open>qn \<equiv> ''"'' @ db @ ''"."'' @ schema @ ''"."'' @ view @ ''"''\<close>
  defines \<open>tail \<equiv> if p = ''OWNERSHIP'' then '' COPY CURRENT GRANTS''
                   else if w then '' WITH GRANT OPTION'' else []\<close>
  defines \<open>inputs \<equiv>
     sublist ''MATERIALIZED VIEW'' p \<or> sublist ''MATERIALIZED VIEW'' db \<or>
     sublist ''MATERIALIZED VIEW'' schema \<or> sublist ''MATERIALIZED VIEW'' view \<or>
     sublist ''MATERIALIZED VIEW'' x\<close>
  shows \<open>Show gb = ''SHOW GRANTS ON MATERIALIZED VIEW '' @ qn \<and>
         sublist ''MATERIALIZED VIEW'' (Show gb) \<and>
         Grant (Role gb x) p w = ''GRANT '' @ p @ '' ON VIEW '' @ qn @ '' TO ROLE "'' @ x @ ''"'' @ tail \<and>
         Grant (Share gb x) p w = ''GRANT '' @ p @ '' ON VIEW '' @ qn @ '' TO SHARE "'' @ x @ ''"'' @ tail \<and>
         Revoke (Role gb x) p = ''REVOKE '' @ p @ '' ON VIEW '' @ qn @ '' FROM ROLE "'' @ x @ ''"'' \<and>
         Revoke (Share gb x) p = ''REVOKE '' @ p @ '' ON VIEW '' @ qn @ '' FROM SHARE "'' @ x @ ''"'' \<and>
         (sublist ''MATERIALIZED VIEW'' (Grant (Role gb x) p w) \<longleftrightarrow> inputs) \<and>
         (sublist ''MATERIALIZED VIEW'' (Grant (Share gb x) p w) \<longleftrightarrow> inputs) \<and>
         (sublist ''MATERIALIZED VIEW'' (Revoke (Role gb x) p) \<longleftrightarrow> inputs) \<and>
         (sublist ''MATERIALIZED VIEW'' (Revoke (Share gb x) p) \<longleftrightarrow> inputs)\<close>
proof -
  let ?P = \<open>''MATERIALIZED VIEW''\<close>
  have tail: \<open>tail \<in> {[], '' WITH GRANT OPTION'', '' COPY CURRENT GRANTS''}\<close>
    by (simp add: tail_def)
  have nil: \<open>[] \<in> {[], '' WITH GRANT OPTION'', '' COPY CURRENT GRANTS''}\<close>
    by simp
  have show_eq: \<open>Show gb = ''SHOW GRANTS ON MATERIALIZED VIEW '' @ qn\<close>
    by (simp add: gb_def qn_def MaterializedViewGrant_def)
  have show_in: \<open>sublist ?P (Show gb)\<close>
    unfolding show_eq sublist_def
    by (rule exI [of _ \<open>''SHOW GRANTS ON ''\<close>], rule exI [of _ \<open>'' '' @ qn\<close>]) simp
  have gr: \<open>Grant (Role gb x) p w =
      ''GRANT '' @ p @ '' ON '' @ grantType_string viewType @ '' '' @
      (''"'' @ db @ ''"."'' @ schema @ ''"."'' @ view @ ''"'') @ '' TO '' @
      granteeType_string roleType @ '' "'' @ x @ ''"'' @ tail\<close>
    by (simp add: gb_def tail_def Grant_render MaterializedViewGrant_render)
  have gs: \<open>Grant (Share gb x) p w =
      ''GRANT '' @ p @ '' ON '' @ grantType_string viewType @ '' '' @
      (''"'' @ db @ ''"."'' @ schema @ ''"."'' @ view @ ''"'') @ '' TO '' @
      granteeType_string shareType @ '' "'' @ x @ ''"'' @ tail\<close>
    by (simp add: gb_def tail_def Grant_render MaterializedViewGrant_render)
  have rr: \<open>Revoke (Role gb x) p =
      ''REVOKE '' @ p @ '' ON '' @ grantType_string viewType @ '' '' @
      (''"'' @ db @ ''"."'' @ schema @ ''"."'' @ view @ ''"'') @ '' FROM '' @
      granteeType_string roleType @ '' "'' @ x @ ''"'' @ []\<close>
    by (simp add: gb_def Revoke_render MaterializedViewGrant_render)
  have rs: \<open>Revoke (Share gb x) p =
      ''REVOKE '' @ p @ '' ON '' @ grantType_string viewType @ '' '' @
      (''"'' @ db @ ''"."'' @ schema @ ''"."'' @ view @ ''"'') @ '' FROM '' @
      granteeType_string shareType @ '' "'' @ x @ ''"'' @ []\<close>
    by (simp add: gb_def Revoke_render MaterializedViewGrant_render)
  have c1: \<open>sublist ?P (Grant (Role gb x) p w) \<longleftrightarrow> inputs\<close>
    unfolding gr inputs_def by (rule MV_in_statement_iff [OF _ _ tail]) simp_all
  have c2: \<open>sublist ?P (Grant (Share gb x) p w) \<longleftrightarrow> inputs\<close>
    unfolding gs inputs_def by (rule MV_in_statement_iff [OF _ _ tail]) simp_all
  have c3: \<open>sublist ?P (Revoke (Role gb x) p) \<longleftrightarrow> inputs\<close>
    unfolding rr inputs_def by (rule MV_in_statement_iff [OF _ _ nil]) simp_all
  have c4: \<open>sublist ?P (Revoke (Share gb x) p) \<longleftrightarrow> inputs\<close>
    unfolding rs inputs_def by (rule MV_in_statement_iff [OF _ _ nil]) simp_all
  have e1: \<open>Grant (Role gb x) p w = ''GRANT '' @ p @ '' ON VIEW '' @ qn @ '' TO ROLE "'' @ x @ ''"'' @ tail\<close>
    unfolding gr by (simp add: qn_def)
  have e2: \<open>Grant (Share gb x) p w = ''GRANT '' @ p @ '' ON VIEW '' @ qn @ '' TO SHARE "'' @ x @ ''"'' @ tail\<close>
    unfolding gs by (simp add: qn_def)
  have e3: \<open>Revoke (Role gb x) p = ''REVOKE '' @ p @ '' ON VIEW '' @ qn @ '' FROM ROLE "'' @ x @ ''"''\<close>
    unfolding rr by (simp add: qn_def)
  have e4: \<open>Revoke (Share gb x) p = ''REVOKE '' @ p @ '' ON VIEW '' @ qn @ '' FROM SHARE "'' @ x @ ''"''\<close>
    unfolding rs by (simp add: qn_def)
  from show_eq show_in e1 e2 e3 e4 c1 c2 c3 c4 show ?thesis
    by (intro conjI)
qed

text \<open>
  Claim C2 as stated (for every materialized view and grantee, \<open>Grant\<close> and \<open>Revoke\<close> do not
  contain \<^verbatim>\<open>MATERIALIZED VIEW\<close>) fails for a view whose name is \<^verbatim>\<open>MATERIALIZED VIEW\<close>.
\<close>

theorem MaterializedViewGrant_keywords_counterexample:
  \<open>Grant (Role (MaterializedViewGrant ''DB'' ''S'' ''MATERIALIZED VIEW'') ''R'') ''SELECT'' False =
     ''GRANT SELECT ON VIEW "DB"."S"."MATERIALIZED VIEW" TO ROLE "R"'' \<and>
   sublist ''MATERIALIZED VIEW''
     (Grant (Role (MaterializedViewGrant ''DB'' ''S'' ''MATERIALIZED VIEW'') ''R'') ''SELECT'' False)\<close>
  by (simp add: Grant_render MaterializedViewGrant_def sublist_Cons_right)

end
